theory Spec2Isabelle
  imports Complex_Main "HOL-Library.Sublist"
begin

section \<open>Timeouts of the test runner (robot/running/timeouts.py)\<close>

text \<open>
  A shallow embedding of the timeout objects of \<^verbatim>\<open>src/robot/running/timeouts.py\<close>
  (Python 2). Conventions of the model:
  \<^item> Python floats (seconds, clock readings) are real numbers; \<^verbatim>\<open>round(x, 3)\<close> is
    rounding to three decimals with halves away from zero, as Python 2 rounds.
  \<^item> \<^verbatim>\<open>time.time()\<close> is an effect: a clock is the sequence of the readings that the
    successive calls return, and every function that reads the clock takes the index of
    the next reading and returns the index after its last one.
  \<^item> An exception is a value of type \<open>exn\<close>; a call that may raise returns a sum with
    the exception on the left.
  \<^item> The collaborators that live in other modules (\<^verbatim>\<open>variables.replace_string\<close>,
    \<^verbatim>\<open>utils.timestr_to_secs\<close>, \<^verbatim>\<open>utils.secs_to_timestr\<close>,
    \<^verbatim>\<open>utils.get_error_message\<close>, \<^verbatim>\<open>ThreadedRunner\<close>, the formatting of a float by
    \<^verbatim>\<open>%s\<close>) are parameters.
\<close>

subsection \<open>Exceptions\<close>

datatype exn =
    DataError string
  | ValueError string
  | FrameworkError string
  | TimeoutError string
  | OtherError string

text \<open>\<^verbatim>\<open>unicode(err)\<close>: the text an exception was raised with.\<close>

fun unicode :: "exn \<Rightarrow> string" where
  "unicode (DataError m) = m"
| "unicode (ValueError m) = m"
| "unicode (FrameworkError m) = m"
| "unicode (TimeoutError m) = m"
| "unicode (OtherError m) = m"

text \<open>The classes that \<^verbatim>\<open>except (DataError, ValueError), err\<close> catches.\<close>

fun is_DataError_or_ValueError :: "exn \<Rightarrow> bool" where
  "is_DataError_or_ValueError (DataError m) = True"
| "is_DataError_or_ValueError (ValueError m) = True"
| "is_DataError_or_ValueError e = False"

subsection \<open>Python built-ins used by the module\<close>

definition ascii_lowercase :: string where
  "ascii_lowercase = ''abcdefghijklmnopqrstuvwxyz''"

definition ascii_uppercase :: string where
  "ascii_uppercase = ''ABCDEFGHIJKLMNOPQRSTUVWXYZ''"

definition upper_char :: "char \<Rightarrow> char" where
  "upper_char c =
     (case map_of (zip ascii_lowercase ascii_uppercase) c of None \<Rightarrow> c | Some d \<Rightarrow> d)"

definition lower_char :: "char \<Rightarrow> char" where
  "lower_char c =
     (case map_of (zip ascii_uppercase ascii_lowercase) c of None \<Rightarrow> c | Some d \<Rightarrow> d)"

text \<open>\<^verbatim>\<open>s.upper()\<close> and \<^verbatim>\<open>s.lower()\<close>, on the ASCII letters.\<close>

definition upper :: "string \<Rightarrow> string" where
  "upper s = map upper_char s"

definition lower :: "string \<Rightarrow> string" where
  "lower s = map lower_char s"

text \<open>
  \<^verbatim>\<open>s.replace(old, new)\<close>: the occurrences of \<open>old\<close> are replaced from the left and do
  not overlap; an empty \<open>old\<close> matches before every character and at the end.
\<close>

function str_replace :: "string \<Rightarrow> string \<Rightarrow> string \<Rightarrow> string" where
  "str_replace old new s =
     (if old = [] then concat (map (\<lambda>c. new @ [c]) s) @ new
      else if s = [] then []
      else if prefix old s then new @ str_replace old new (drop (length old) s)
      else hd s # str_replace old new (tl s))"
  by pat_completeness auto
termination
  by (relation "measure (\<lambda>(old, new, s). length s)") auto

text \<open>\<^verbatim>\<open>cmp(x, y)\<close> of Python 2.\<close>

definition cmp :: "'a::linorder \<Rightarrow> 'a \<Rightarrow> int" where
  "cmp x y = (if x < y then - 1 else if x = y then 0 else 1)"

text \<open>\<^verbatim>\<open>round(x, 3)\<close> of Python 2: three decimals, halves away from zero.\<close>

definition round3 :: "real \<Rightarrow> real" where
  "round3 x =
     (if 0 \<le> x then real_of_int \<lfloor>x * 1000 + 1 / 2\<rfloor> / 1000
      else - (real_of_int \<lfloor>- x * 1000 + 1 / 2\<rfloor> / 1000))"

subsection \<open>The clock\<close>

type_synonym clock = "nat \<Rightarrow> real"

text \<open>\<^verbatim>\<open>time.time()\<close>: the next reading, and the index of the one after it.\<close>

definition time_time :: "clock \<Rightarrow> nat \<Rightarrow> real \<times> nat" where
  "time_time clk k = (clk k, Suc k)"

subsection \<open>Collaborators\<close>

text \<open>
  The \<^verbatim>\<open>variables\<close> object: its method \<^verbatim>\<open>replace_string\<close>, and the truth value that
  \<^verbatim>\<open>if variables:\<close> finds in it.
\<close>

record variables =
  replace_string :: "string \<Rightarrow> exn + string"
  truth_value :: bool

record utils =
  timestr_to_secs :: "string \<Rightarrow> exn + real"
  secs_to_timestr :: "real \<Rightarrow> exn + string"
  get_error_message :: "exn \<Rightarrow> string"

text \<open>
  \<^verbatim>\<open>ThreadedRunner(runnable, args, kwargs)\<close>: what its three methods answer.
  \<open>stop_thread\<close> is the exception that \<^verbatim>\<open>stop_thread()\<close> raises, if it raises.
\<close>

record 'a threaded_runner =
  run_in_thread :: "real \<Rightarrow> bool"
  get_result :: "exn + 'a"
  stop_thread :: "exn option"

subsection \<open>The timeout object\<close>

datatype timeout_class = TestTimeout | KeywordTimeout

fun class_name :: "timeout_class \<Rightarrow> string" where
  "class_name TestTimeout = ''TestTimeout''"
| "class_name KeywordTimeout = ''KeywordTimeout''"

text \<open>
  The attributes of a \<^verbatim>\<open>_Timeout\<close>. \<open>cls\<close> is the class of the object;
  \<open>keyword_timeouted\<close> is the attribute \<^verbatim>\<open>_keyword_timeouted\<close>, which only the methods
  of \<^verbatim>\<open>TestTimeout\<close> read and write.
\<close>

record timeout =
  cls :: timeout_class
  string :: string
  message :: string
  secs :: real
  starttime :: real
  error :: "string option"
  keyword_timeouted :: bool

text \<open>The property \<^verbatim>\<open>type\<close>.\<close>

definition timeout_type :: "timeout \<Rightarrow> string" where
  "timeout_type tm = str_replace ''Timeout'' '' timeout'' (class_name (cls tm))"

text \<open>The property \<^verbatim>\<open>active\<close>.\<close>

definition active :: "timeout \<Rightarrow> bool" where
  "active tm = (starttime tm > 0)"

text \<open>
  The \<^verbatim>\<open>except\<close> clause of \<^verbatim>\<open>replace_variables\<close>; an exception of any other class
  goes on to the caller.
\<close>

definition replace_variables_except :: "timeout \<Rightarrow> exn \<Rightarrow> timeout \<times> exn option" where
  "replace_variables_except tm err =
     (if is_DataError_or_ValueError err
      then (tm\<lparr>secs := 1 / 1000000,
               error := Some (''Setting '' @ lower (timeout_type tm) @ '' failed: '' @ unicode err)\<rparr>,
            None)
      else (tm, Some err))"

text \<open>
  The body of the \<^verbatim>\<open>try\<close> of \<^verbatim>\<open>replace_variables\<close>: the object when the body
  ends, and the exception that ended it, if one did.
\<close>

definition replace_variables_try :: "utils \<Rightarrow> variables \<Rightarrow> timeout \<Rightarrow> timeout \<times> exn option" where
  "replace_variables_try u v tm =
     (case replace_string v (string tm) of
        Inl err \<Rightarrow> (tm, Some err)
      | Inr s \<Rightarrow>
          let tm1 = tm\<lparr>string := s\<rparr> in
          if s = [] \<or> upper s = ''NONE'' then (tm1, None)
          else
            (case timestr_to_secs u s of
               Inl err \<Rightarrow> (tm1, Some err)
             | Inr x \<Rightarrow>
                 let tm2 = tm1\<lparr>secs := x\<rparr> in
                 (case secs_to_timestr u x of
                    Inl err \<Rightarrow> (tm2, Some err)
                  | Inr str \<Rightarrow>
                      let tm3 = tm2\<lparr>string := str\<rparr> in
                      (case replace_string v (message tm3) of
                         Inl err \<Rightarrow> (tm3, Some err)
                       | Inr m \<Rightarrow> (tm3\<lparr>message := m\<rparr>, None)))))"

text \<open>
  \<^verbatim>\<open>replace_variables\<close>: the object after the call and the exception that left the
  call, if one did.
\<close>

definition replace_variables :: "utils \<Rightarrow> variables \<Rightarrow> timeout \<Rightarrow> timeout \<times> exn option" where
  "replace_variables u v tm =
     (case replace_variables_try u v tm of
        (tm', None) \<Rightarrow> (tm', None)
      | (tm', Some err) \<Rightarrow> replace_variables_except tm' err)"

text \<open>
  \<^verbatim>\<open>__init__\<close> of the class \<open>c\<close>; \<^verbatim>\<open>timeout=None\<close> and \<^verbatim>\<open>variables=None\<close> are
  \<open>None\<close>. \<^verbatim>\<open>if variables:\<close> is false for \<^verbatim>\<open>None\<close> and for an object whose truth
  value is false.
\<close>

definition init ::
  "utils \<Rightarrow> timeout_class \<Rightarrow> string option \<Rightarrow> string \<Rightarrow> variables option \<Rightarrow> exn + timeout" where
  "init u c timeout_arg message_arg variables_arg =
     (let self = \<lparr>cls = c,
                  string = (case timeout_arg of None \<Rightarrow> [] | Some s \<Rightarrow> s),
                  message = message_arg,
                  secs = - 1,
                  starttime = - 1,
                  error = None,
                  keyword_timeouted = False\<rparr>
      in case variables_arg of
           None \<Rightarrow> Inr self
         | Some v \<Rightarrow>
             if truth_value v
             then (case replace_variables u v self of
                     (self', None) \<Rightarrow> Inr self'
                   | (self', Some err) \<Rightarrow> Inl err)
             else Inr self)"

definition start :: "clock \<Rightarrow> timeout \<Rightarrow> nat \<Rightarrow> timeout \<times> nat" where
  "start clk tm k =
     (if secs tm > 0
      then (let (t, k') = time_time clk k in (tm\<lparr>starttime := t\<rparr>, k'))
      else (tm, k))"

definition time_left :: "clock \<Rightarrow> timeout \<Rightarrow> nat \<Rightarrow> real \<times> nat" where
  "time_left clk tm k =
     (if \<not> active tm then (- 1, k)
      else (let (t, k') = time_time clk k;
                elapsed = t - starttime tm
            in (round3 (secs tm - elapsed), k')))"

definition timed_out :: "clock \<Rightarrow> timeout \<Rightarrow> nat \<Rightarrow> bool \<times> nat" where
  "timed_out clk tm k =
     (if active tm
      then (let (left, k') = time_left clk tm k in (left \<le> 0, k'))
      else (False, k))"

text \<open>
  \<^verbatim>\<open>__cmp__\<close>: \<^verbatim>\<open>x or y\<close> on integers is \<open>y\<close> when \<open>x\<close> is 0, and then only are the
  two \<^verbatim>\<open>time_left()\<close> evaluated, left to right.
\<close>

definition timeout_cmp :: "clock \<Rightarrow> timeout \<Rightarrow> timeout \<Rightarrow> nat \<Rightarrow> int \<times> nat" where
  "timeout_cmp clk self other k =
     (let c = cmp (\<not> active self) (\<not> active other) in
      if c \<noteq> 0 then (c, k)
      else (let (l1, k1) = time_left clk self k;
                (l2, k2) = time_left clk other k1
            in (cmp l1 l2, k2)))"

definition get_timeout_error :: "timeout \<Rightarrow> string" where
  "get_timeout_error tm =
     (if message tm \<noteq> [] then message tm
      else timeout_type tm @ '' '' @ string tm @ '' exceeded.'')"

text \<open>\<open>fmt\<close> is the formatting of a float by \<^verbatim>\<open>%s\<close>.\<close>

definition get_message :: "(real \<Rightarrow> string) \<Rightarrow> clock \<Rightarrow> timeout \<Rightarrow> nat \<Rightarrow> string \<times> nat" where
  "get_message fmt clk tm k =
     (if \<not> active tm then (timeout_type tm @ '' not active.'', k)
      else (let (expired, k1) = timed_out clk tm k in
            if \<not> expired
            then (let (left, k2) = time_left clk tm k1
                  in (timeout_type tm @ '' '' @ string tm @ '' active. '' @ fmt left
                        @ '' seconds left.'', k2))
            else (get_timeout_error tm, k1)))"

text \<open>The truth value of \<^verbatim>\<open>self.error\<close>: neither \<^verbatim>\<open>None\<close> nor the empty string.\<close>

fun error_set :: "string option \<Rightarrow> bool" where
  "error_set None = False"
| "error_set (Some m) = (m \<noteq> [])"

fun error_text :: "string option \<Rightarrow> string" where
  "error_text None = []"
| "error_text (Some m) = m"

text \<open>
  \<^verbatim>\<open>run\<close>. \<open>exec\<close> is the method \<^verbatim>\<open>_execute_with_timeout\<close> of the object's class,
  which is the one of the strategy class that the module binds to \<^verbatim>\<open>_Timeout\<close> before
  it defines \<^verbatim>\<open>TestTimeout\<close> and \<^verbatim>\<open>KeywordTimeout\<close>; the runnable and its arguments are
  handed to it and used nowhere else.
\<close>

definition run ::
  "(real \<Rightarrow> string) \<Rightarrow> clock \<Rightarrow> (timeout \<Rightarrow> real \<Rightarrow> 'r \<Rightarrow> 'args \<Rightarrow> 'kw \<Rightarrow> exn + 'a) \<Rightarrow>
   timeout \<Rightarrow> 'r \<Rightarrow> 'args \<Rightarrow> 'kw \<Rightarrow> nat \<Rightarrow> (exn + 'a) \<times> nat" where
  "run fmt clk exec tm runnable args kwargs k =
     (if error_set (error tm) then (Inl (DataError (error_text (error tm))), k)
      else if \<not> active tm then (Inl (FrameworkError ''Timeout is not active''), k)
      else (let (timeout, k1) = time_left clk tm k in
            if timeout \<le> 0
            then (let (msg, k2) = get_message fmt clk tm k1 in (Inl (TimeoutError msg), k2))
            else (exec tm timeout runnable args kwargs, k1)))"

text \<open>
  \<^verbatim>\<open>TimeoutWithThread._execute_with_timeout\<close>. The bare \<^verbatim>\<open>except:\<close> catches whatever
  \<^verbatim>\<open>stop_thread()\<close> raises, and \<^verbatim>\<open>utils.get_error_message()\<close> describes that exception.
\<close>

definition TimeoutWithThread_execute_with_timeout ::
  "utils \<Rightarrow> ('r \<Rightarrow> 'args \<Rightarrow> 'kw \<Rightarrow> 'a threaded_runner) \<Rightarrow>
   timeout \<Rightarrow> real \<Rightarrow> 'r \<Rightarrow> 'args \<Rightarrow> 'kw \<Rightarrow> exn + 'a" where
  "TimeoutWithThread_execute_with_timeout u ThreadedRunner tm timeout runnable args kwargs =
     (let runner = ThreadedRunner runnable args kwargs in
      if run_in_thread runner timeout then get_result runner
      else (case stop_thread runner of
              Some err \<Rightarrow>
                Inl (TimeoutError (''Stopping keyword after '' @ lower (timeout_type tm)
                                   @ '' failed: '' @ get_error_message u err))
            | None \<Rightarrow> Inl (TimeoutError (get_timeout_error tm))))"

subsection \<open>TestTimeout\<close>

definition set_keyword_timeout :: "timeout \<Rightarrow> bool \<Rightarrow> timeout" where
  "set_keyword_timeout tm timeout_occurred =
     tm\<lparr>keyword_timeouted := keyword_timeouted tm \<or> timeout_occurred\<rparr>"

definition any_timeout_occurred :: "clock \<Rightarrow> timeout \<Rightarrow> nat \<Rightarrow> bool \<times> nat" where
  "any_timeout_occurred clk tm k =
     (let (expired, k1) = timed_out clk tm k in (expired \<or> keyword_timeouted tm, k1))"

subsection \<open>Sequences of calls on one object\<close>

text \<open>
  The calls that the module offers on a timeout object. Only \<^verbatim>\<open>replace_variables\<close>,
  \<^verbatim>\<open>start\<close> and \<^verbatim>\<open>set_keyword_timeout\<close> assign attributes; the others read the
  object and the clock. A caller may catch what a call raises and go on, so the object
  after a call is kept whatever the call's outcome.
\<close>

datatype ('r, 'args, 'kw, 'a) call =
    ReplaceVariables utils variables
  | Start
  | TimeLeft
  | TimedOut
  | Cmp timeout
  | Run "timeout \<Rightarrow> real \<Rightarrow> 'r \<Rightarrow> 'args \<Rightarrow> 'kw \<Rightarrow> exn + 'a" 'r 'args 'kw
  | GetMessage
  | SetKeywordTimeout bool
  | AnyTimeoutOccurred

fun perform ::
  "(real \<Rightarrow> string) \<Rightarrow> clock \<Rightarrow> ('r, 'args, 'kw, 'a) call \<Rightarrow> timeout \<times> nat \<Rightarrow> timeout \<times> nat" where
  "perform fmt clk (ReplaceVariables u v) (tm, k) = (fst (replace_variables u v tm), k)"
| "perform fmt clk Start (tm, k) = start clk tm k"
| "perform fmt clk TimeLeft (tm, k) = (tm, snd (time_left clk tm k))"
| "perform fmt clk TimedOut (tm, k) = (tm, snd (timed_out clk tm k))"
| "perform fmt clk (Cmp other) (tm, k) = (tm, snd (timeout_cmp clk tm other k))"
| "perform fmt clk (Run exec runnable args kwargs) (tm, k) =
     (tm, snd (run fmt clk exec tm runnable args kwargs k))"
| "perform fmt clk GetMessage (tm, k) = (tm, snd (get_message fmt clk tm k))"
| "perform fmt clk (SetKeywordTimeout b) (tm, k) = (set_keyword_timeout tm b, k)"
| "perform fmt clk AnyTimeoutOccurred (tm, k) = (tm, snd (any_timeout_occurred clk tm k))"

fun perform_all ::
  "(real \<Rightarrow> string) \<Rightarrow> clock \<Rightarrow> ('r, 'args, 'kw, 'a) call list \<Rightarrow> timeout \<times> nat \<Rightarrow> timeout \<times> nat" where
  "perform_all fmt clk [] st = st"
| "perform_all fmt clk (c # cs) st = perform_all fmt clk cs (perform fmt clk c st)"

subsection \<open>Example inputs\<close>

text \<open>A clock that starts at 100 s and advances one second per reading.\<close>

definition ticking_clock :: clock where
  "ticking_clock n = 100 + real n"

text \<open>A variable resolver without variables: every string resolves to itself.\<close>

definition plain_variables :: variables where
  "plain_variables = \<lparr>replace_string = (\<lambda>s. Inr s), truth_value = True\<rparr>"

text \<open>
  Utilities that know one time string, and whose error texts do not repeat their input.
\<close>

definition simple_utils :: utils where
  "simple_utils =
     \<lparr>timestr_to_secs =
        (\<lambda>s. if s = ''1s'' then Inr 1 else Inl (ValueError ''Invalid time string.'')),
      secs_to_timestr = (\<lambda>x. if x = 1 then Inr ''1 second'' else Inl (ValueError ''Invalid time.'')),
      get_error_message = unicode\<rparr>"

text \<open>A test timeout of one second, resolved and not started.\<close>

definition one_second :: timeout where
  "one_second =
     \<lparr>cls = TestTimeout, string = ''1 second'', message = [], secs = 1, starttime = - 1,
      error = None, keyword_timeouted = False\<rparr>"

text \<open>A keyword timeout as \<^verbatim>\<open>__init__\<close> leaves it without variables.\<close>

definition unresolved :: "string \<Rightarrow> timeout" where
  "unresolved s =
     \<lparr>cls = KeywordTimeout, string = s, message = [], secs = - 1, starttime = - 1,
      error = None, keyword_timeouted = False\<rparr>"

text \<open>A clock read at 100 s and from then on at 100.9996 s.\<close>

definition late_clock :: clock where
  "late_clock n = (if n = 0 then 100 else 100 + 9996 / 10000)"

text \<open>A clock whose readings are all 100 s.\<close>

definition frozen_clock :: clock where
  "frozen_clock n = 100"

text \<open>A clock read at 105 s and from then on at 100 s: it steps back after one reading.\<close>

definition stepping_back_clock :: clock where
  "stepping_back_clock n = (if n = 0 then 105 else 100)"



text \<open>A float formatting that prints nothing of the number.\<close>

definition no_format :: "real \<Rightarrow> string" where
  "no_format x = ''?''"

text \<open>A strategy that calls the runnable at once; the runnable is its own result.\<close>

definition call_directly :: "timeout \<Rightarrow> real \<Rightarrow> nat \<Rightarrow> unit \<Rightarrow> unit \<Rightarrow> exn + nat" where
  "call_directly tm timeout runnable args kwargs = Inr runnable"

text \<open>
  A threaded runner that finishes in time or not, and whose \<^verbatim>\<open>stop_thread()\<close> raises or
  not.
\<close>

definition runner_of :: "bool \<Rightarrow> exn option \<Rightarrow> nat \<Rightarrow> unit \<Rightarrow> unit \<Rightarrow> nat threaded_runner" where
  "runner_of finishes stop runnable args kwargs =
     \<lparr>run_in_thread = (\<lambda>timeout. finishes), get_result = Inr runnable, stop_thread = stop\<rparr>"

section \<open>Properties\<close>

subsection \<open>The type label and rounding\<close>


lemma timeout_type_cases:
  "timeout_type tm = (case cls tm of TestTimeout \<Rightarrow> ''Test timeout'' | KeywordTimeout \<Rightarrow> ''Keyword timeout'')"
  by (cases "cls tm") (simp_all add: timeout_type_def)


lemma round3_of_nonneg:
  assumes "0 \<le> x"
  obtains n :: int where "round3 x = real_of_int n / 1000" and "real_of_int n \<le> x * 1000 + 1 / 2"
    and "x * 1000 + 1 / 2 < real_of_int n + 1" and "0 \<le> n"
proof -
  define n where "n = \<lfloor>x * 1000 + 1 / 2\<rfloor>"
  have 1: "round3 x = real_of_int n / 1000" using assms unfolding n_def round3_def by (simp only: if_True)
  have 2: "real_of_int n \<le> x * 1000 + 1 / 2" unfolding n_def by (rule of_int_floor_le)
  have 3: "x * 1000 + 1 / 2 < real_of_int n + 1" unfolding n_def by linarith
  have "0 \<le> x * 1000 + 1 / 2" using assms by simp
  then have 4: "0 \<le> n" unfolding n_def by (simp only: zero_le_floor of_int_0)
  show thesis using that 1 2 3 4 by blast
qed

lemma round3_of_neg:
  assumes "x < 0"
  obtains n :: int where "round3 x = - (real_of_int n / 1000)" and "real_of_int n \<le> - x * 1000 + 1 / 2"
    and "- x * 1000 + 1 / 2 < real_of_int n + 1" and "0 \<le> n"
proof -
  define n where "n = \<lfloor>- x * 1000 + 1 / 2\<rfloor>"
  have nx: "\<not> 0 \<le> x" using assms by simp
  have 1: "round3 x = - (real_of_int n / 1000)" using nx unfolding n_def round3_def by (simp only: if_False)
  have 2: "real_of_int n \<le> - x * 1000 + 1 / 2" unfolding n_def by (rule of_int_floor_le)
  have 3: "- x * 1000 + 1 / 2 < real_of_int n + 1" unfolding n_def by linarith
  have "0 \<le> - x * 1000 + 1 / 2" using assms by simp
  then have 4: "0 \<le> n" unfolding n_def by (simp only: zero_le_floor of_int_0)
  show thesis using that 1 2 3 4 by blast
qed

lemma round3_nonneg: "0 \<le> x \<Longrightarrow> 0 \<le> round3 x"
  by (erule round3_of_nonneg) simp

lemma round3_nonpos: "x \<le> 0 \<Longrightarrow> round3 x \<le> 0"
proof (cases "x = 0")
  case True
  then show ?thesis by (simp add: round3_def)
next
  case False
  assume "x \<le> 0"
  then have "x < 0" using False by simp
  then show ?thesis by (rule round3_of_neg) simp
qed

lemma round3_near: "\<bar>round3 x - x\<bar> \<le> 1 / 2000"
proof (cases "0 \<le> x")
  case True
  then obtain n where "round3 x = real_of_int n / 1000" "real_of_int n \<le> x * 1000 + 1 / 2"
      "x * 1000 + 1 / 2 < real_of_int n + 1" by (rule round3_of_nonneg)
  then show ?thesis by linarith
next
  case False
  then have "x < 0" by simp
  then obtain n where "round3 x = - (real_of_int n / 1000)" "real_of_int n \<le> - x * 1000 + 1 / 2"
      "- x * 1000 + 1 / 2 < real_of_int n + 1" by (rule round3_of_neg)
  then show ?thesis by linarith
qed

lemma round3_pos_iff: "0 < round3 x \<longleftrightarrow> 1 / 2000 \<le> x"
proof (cases "0 \<le> x")
  case True
  then obtain n where n: "round3 x = real_of_int n / 1000" "real_of_int n \<le> x * 1000 + 1 / 2"
      "x * 1000 + 1 / 2 < real_of_int n + 1" "0 \<le> n" by (rule round3_of_nonneg)
  show ?thesis
  proof
    assume "0 < round3 x"
    then have "0 < n" using n(1) by simp
    then have "1 \<le> real_of_int n" by simp
    then show "1 / 2000 \<le> x" using n(2) by simp
  next
    assume "1 / 2000 \<le> x"
    then have "0 < real_of_int n + 1 - 1" using n(3) by simp
    then show "0 < round3 x" using n(1) by simp
  qed
next
  case False
  then have "round3 x \<le> 0" by (intro round3_nonpos) simp
  then show ?thesis using False by simp
qed

lemma round3_mono: "x \<le> y \<Longrightarrow> round3 x \<le> round3 y"
proof -
  assume xy: "x \<le> y"
  show ?thesis
  proof (cases "0 \<le> x")
    case True
    then have y0: "0 \<le> y" using xy by simp
    have "\<lfloor>x * 1000 + 1 / 2\<rfloor> \<le> \<lfloor>y * 1000 + 1 / 2\<rfloor>"
      using xy by (intro floor_mono) simp
    then have "real_of_int \<lfloor>x * 1000 + 1 / 2\<rfloor> / 1000 \<le> real_of_int \<lfloor>y * 1000 + 1 / 2\<rfloor> / 1000"
      by (simp only: divide_right_mono of_int_le_iff zero_le_numeral)
    then show ?thesis using True y0 unfolding round3_def by (simp only: if_True)
  next
    case False
    show ?thesis
    proof (cases "0 \<le> y")
      case True
      have "round3 x \<le> 0" using False by (intro round3_nonpos) simp
      moreover have "0 \<le> round3 y" using True by (rule round3_nonneg)
      ultimately show ?thesis by simp
    next
      case Fy: False
      have "\<lfloor>- y * 1000 + 1 / 2\<rfloor> \<le> \<lfloor>- x * 1000 + 1 / 2\<rfloor>"
        using xy by (intro floor_mono) simp
      then have "real_of_int \<lfloor>- y * 1000 + 1 / 2\<rfloor> / 1000 \<le> real_of_int \<lfloor>- x * 1000 + 1 / 2\<rfloor> / 1000"
        by (simp only: divide_right_mono of_int_le_iff zero_le_numeral)
      then have "- (real_of_int \<lfloor>- x * 1000 + 1 / 2\<rfloor> / 1000) \<le> - (real_of_int \<lfloor>- y * 1000 + 1 / 2\<rfloor> / 1000)"
        by (simp only: neg_le_iff_le)
      then show ?thesis using False Fy unfolding round3_def by (simp only: if_False)
    qed
  qed
qed

subsection \<open>Reading the clock\<close>


lemma time_left_inactive: "\<not> active tm \<Longrightarrow> time_left clk tm k = (- 1, k)"
  by (simp add: time_left_def)

lemma time_left_active:
  "active tm \<Longrightarrow> time_left clk tm k = (round3 (secs tm - (clk k - starttime tm)), Suc k)"
  by (simp add: time_left_def time_time_def)

lemma timed_out_inactive: "\<not> active tm \<Longrightarrow> timed_out clk tm k = (False, k)"
  by (simp add: timed_out_def)

lemma timed_out_active:
  "active tm \<Longrightarrow> timed_out clk tm k = (round3 (secs tm - (clk k - starttime tm)) \<le> 0, Suc k)"
  by (simp add: timed_out_def time_left_active)

lemma still_expired_later:
  assumes "active tm" and "fst (time_left clk tm k) \<le> 0" and "clk k \<le> clk j"
  shows "timed_out clk tm j = (True, Suc j)"
proof -
  have "round3 (secs tm - (clk k - starttime tm)) \<le> 0"
    using assms(1,2) by (simp add: time_left_active)
  moreover have "round3 (secs tm - (clk j - starttime tm)) \<le> round3 (secs tm - (clk k - starttime tm))"
    using assms(3) by (intro round3_mono) simp
  ultimately have "round3 (secs tm - (clk j - starttime tm)) \<le> 0" by simp
  then show ?thesis using assms(1) by (simp add: timed_out_active)
qed

lemma get_message_expired:
  assumes "active tm" and "fst (time_left clk tm k) \<le> 0" and "clk k \<le> clk j"
  shows "get_message fmt clk tm j = (get_timeout_error tm, Suc j)"
  using assms(1) still_expired_later [OF assms] by (simp add: get_message_def)

subsection \<open>Running under a timeout\<close>

text \<open>
  C1, as the code has it. \<^verbatim>\<open>run\<close> checks in this order: a stored resolution error gives a
  \<open>DataError\<close> with the stored text, whether the timeout was started or not; otherwise
  a timeout that is not active gives the \<open>FrameworkError\<close>; otherwise a
  \<^verbatim>\<open>time_left()\<close> that is not positive gives a \<open>TimeoutError\<close> with the text of
  \<^verbatim>\<open>get_message()\<close>, which is the expiry message when the clock reading that
  \<^verbatim>\<open>get_message()\<close> takes is not earlier than the one that \<^verbatim>\<open>run\<close> took; only
  otherwise is the strategy called, with the \<^verbatim>\<open>time_left()\<close> just computed. In the
  three failing cases the outcome is the same whatever the strategy and the runnable
  are: neither is used.
\<close>

theorem run_fails_in_order_before_delegating:
  "(error_set (error tm) \<longrightarrow>
      run fmt clk exec tm runnable args kwargs k = (Inl (DataError (error_text (error tm))), k))
   \<and> (\<not> error_set (error tm) \<and> \<not> active tm \<longrightarrow>
      run fmt clk exec tm runnable args kwargs k = (Inl (FrameworkError ''Timeout is not active''), k))
   \<and> (\<not> error_set (error tm) \<and> active tm \<and> fst (time_left clk tm k) \<le> 0 \<longrightarrow>
      fst (run fmt clk exec tm runnable args kwargs k)
        = Inl (TimeoutError (fst (get_message fmt clk tm (Suc k))))
      \<and> (clk k \<le> clk (Suc k) \<longrightarrow>
          fst (run fmt clk exec tm runnable args kwargs k) = Inl (TimeoutError (get_timeout_error tm))))
   \<and> (\<not> error_set (error tm) \<and> active tm \<and> 0 < fst (time_left clk tm k) \<longrightarrow>
      run fmt clk exec tm runnable args kwargs k
        = (exec tm (fst (time_left clk tm k)) runnable args kwargs, Suc k))
   \<and> (error_set (error tm) \<or> \<not> active tm \<or> fst (time_left clk tm k) \<le> 0 \<longrightarrow>
      run fmt clk exec' tm runnable' args' kwargs' k = run fmt clk exec tm runnable args kwargs k)"
proof (intro conjI impI)
  assume "error_set (error tm)"
  then show "run fmt clk exec tm runnable args kwargs k = (Inl (DataError (error_text (error tm))), k)"
    by (simp add: run_def)
next
  assume "\<not> error_set (error tm) \<and> \<not> active tm"
  then show "run fmt clk exec tm runnable args kwargs k = (Inl (FrameworkError ''Timeout is not active''), k)"
    by (simp add: run_def)
next
  assume h: "\<not> error_set (error tm) \<and> active tm \<and> fst (time_left clk tm k) \<le> 0"
  then have a: "active tm" and e: "\<not> error_set (error tm)" and l: "fst (time_left clk tm k) \<le> 0"
    by simp_all
  have "time_left clk tm k = (fst (time_left clk tm k), Suc k)"
    using a by (simp add: time_left_active)
  then show msg: "fst (run fmt clk exec tm runnable args kwargs k)
        = Inl (TimeoutError (fst (get_message fmt clk tm (Suc k))))"
    using a e l by (auto simp add: run_def split: prod.splits)
  assume "clk k \<le> clk (Suc k)"
  then have "get_message fmt clk tm (Suc k) = (get_timeout_error tm, Suc (Suc k))"
    using h by (intro get_message_expired) simp_all
  then show "fst (run fmt clk exec tm runnable args kwargs k) = Inl (TimeoutError (get_timeout_error tm))"
    using msg by simp
next
  assume "\<not> error_set (error tm) \<and> active tm \<and> 0 < fst (time_left clk tm k)"
  then show "run fmt clk exec tm runnable args kwargs k
        = (exec tm (fst (time_left clk tm k)) runnable args kwargs, Suc k)"
    by (auto simp add: run_def time_left_active)
next
  assume "error_set (error tm) \<or> \<not> active tm \<or> fst (time_left clk tm k) \<le> 0"
  then show "run fmt clk exec' tm runnable' args' kwargs' k = run fmt clk exec tm runnable args kwargs k"
    by (auto simp add: run_def time_left_active time_left_inactive)
qed

theorem run_fails_in_order_before_delegating_witness:
  "run no_format ticking_clock call_directly
       (one_second\<lparr>error := Some ''Setting test timeout failed: Invalid time string.''\<rparr>) 7 () () 0
     = (Inl (DataError ''Setting test timeout failed: Invalid time string.''), 0)
   \<and> run no_format ticking_clock call_directly one_second 7 () () 0
     = (Inl (FrameworkError ''Timeout is not active''), 0)
   \<and> fst (run no_format ticking_clock call_directly (one_second\<lparr>starttime := 100\<rparr>) 7 () () 5)
     = Inl (TimeoutError ''Test timeout 1 second exceeded.'')
   \<and> run no_format ticking_clock call_directly (one_second\<lparr>secs := 10, starttime := 100\<rparr>) 7 () () 2
     = (Inr 7, 3)"
  using run_fails_in_order_before_delegating
          [of "one_second\<lparr>error := Some ''Setting test timeout failed: Invalid time string.''\<rparr>"
              no_format ticking_clock call_directly 7 "()" "()" 0 call_directly 7 "()" "()"]
        run_fails_in_order_before_delegating
          [of one_second no_format ticking_clock call_directly 7 "()" "()" 0 call_directly 7 "()" "()"]
        run_fails_in_order_before_delegating
          [of "one_second\<lparr>starttime := 100\<rparr>" no_format ticking_clock call_directly 7 "()" "()" 5
              call_directly 7 "()" "()"]
        run_fails_in_order_before_delegating
          [of "one_second\<lparr>secs := 10, starttime := 100\<rparr>" no_format ticking_clock call_directly 7 "()" "()" 2
              call_directly 7 "()" "()"]
  by (simp add: one_second_def active_def time_left_def time_time_def ticking_clock_def round3_def
        get_timeout_error_def timeout_type_cases call_directly_def get_message_def timed_out_def)

text \<open>
  C1 as stated fails where it says that the failure carries the expiry message. A test
  timeout of 1 s started at 100 s is run on a clock that reads 105 s and then 100 s:
  \<^verbatim>\<open>time_left()\<close> is -4, and \<^verbatim>\<open>get_message()\<close>, reading the clock again, finds the
  timeout not timed out and gives the text for an active timeout.
\<close>

theorem run_message_after_clock_steps_back_counterexample:
  "\<not> error_set (error (one_second\<lparr>starttime := 100\<rparr>))
   \<and> active (one_second\<lparr>starttime := 100\<rparr>)
   \<and> fst (time_left stepping_back_clock (one_second\<lparr>starttime := 100\<rparr>) 0) \<le> 0
   \<and> fst (run no_format stepping_back_clock call_directly (one_second\<lparr>starttime := 100\<rparr>) 7 () () 0)
       = Inl (TimeoutError ''Test timeout 1 second active. ? seconds left.'')
   \<and> get_timeout_error (one_second\<lparr>starttime := 100\<rparr>) = ''Test timeout 1 second exceeded.''"
  by (simp add: one_second_def active_def run_def time_left_def time_time_def stepping_back_clock_def
        round3_def get_timeout_error_def timeout_type_cases get_message_def timed_out_def
        no_format_def)

text \<open>
  C3. Under the strategy that runs the work in a thread, the outcome is
  \<^verbatim>\<open>get_result()\<close> as it is when \<^verbatim>\<open>run_in_thread(timeout)\<close> answers true. When it
  answers false the outcome is always a \<open>TimeoutError\<close> and never a result: with the
  text \<^verbatim>\<open>Stopping keyword after <type> failed: <detail>\<close> (the type in lower case) when
  \<^verbatim>\<open>stop_thread()\<close> raises, and with the expiry message when it returns.
\<close>

theorem thread_strategy_deadline_miss_is_timeout:
  "(run_in_thread (mk runnable args kwargs) t \<longrightarrow>
      TimeoutWithThread_execute_with_timeout u mk tm t runnable args kwargs
        = get_result (mk runnable args kwargs))
   \<and> (\<not> run_in_thread (mk runnable args kwargs) t \<longrightarrow>
        (\<forall>err. stop_thread (mk runnable args kwargs) = Some err \<longrightarrow>
           TimeoutWithThread_execute_with_timeout u mk tm t runnable args kwargs
             = Inl (TimeoutError (''Stopping keyword after '' @ lower (timeout_type tm)
                                  @ '' failed: '' @ get_error_message u err)))
      \<and> (stop_thread (mk runnable args kwargs) = None \<longrightarrow>
           TimeoutWithThread_execute_with_timeout u mk tm t runnable args kwargs
             = Inl (TimeoutError (get_timeout_error tm)))
      \<and> (\<exists>m. TimeoutWithThread_execute_with_timeout u mk tm t runnable args kwargs
             = Inl (TimeoutError m))
      \<and> (\<forall>x. TimeoutWithThread_execute_with_timeout u mk tm t runnable args kwargs \<noteq> Inr x))"
  by (cases "stop_thread (mk runnable args kwargs)")
     (simp_all add: TimeoutWithThread_execute_with_timeout_def)

theorem thread_strategy_deadline_miss_is_timeout_witness:
  "TimeoutWithThread_execute_with_timeout simple_utils (runner_of True None) one_second 1 7 () ()
     = Inr 7
   \<and> TimeoutWithThread_execute_with_timeout simple_utils
        (runner_of False (Some (OtherError ''cannot stop''))) one_second 1 7 () ()
     = Inl (TimeoutError ''Stopping keyword after test timeout failed: cannot stop'')
   \<and> TimeoutWithThread_execute_with_timeout simple_utils (runner_of False None) one_second 1 7 () ()
     = Inl (TimeoutError ''Test timeout 1 second exceeded.'')"
  using thread_strategy_deadline_miss_is_timeout
          [of "runner_of True None" 7 "()" "()" 1 simple_utils one_second]
        thread_strategy_deadline_miss_is_timeout
          [of "runner_of False (Some (OtherError ''cannot stop''))" 7 "()" "()" 1 simple_utils one_second]
        thread_strategy_deadline_miss_is_timeout
          [of "runner_of False None" 7 "()" "()" 1 simple_utils one_second]
  by (simp add: runner_of_def simple_utils_def one_second_def get_timeout_error_def
        timeout_type_cases lower_def lower_char_def ascii_lowercase_def ascii_uppercase_def)

subsection \<open>Comparing timeouts\<close>



subsection \<open>Resolving the timeout string\<close>

lemma upper_none_variants:
  "list_all2 (\<lambda>c cs. c \<in> set cs) s [''nN'', ''oO'', ''nN'', ''eE''] \<Longrightarrow> upper s = ''NONE''"
  by (auto simp add: list_all2_Cons2 upper_def upper_char_def ascii_lowercase_def ascii_uppercase_def)

lemma start_not_positive: "\<not> 0 < secs tm \<Longrightarrow> start clk tm k = (tm, k)"
  by (simp add: start_def)

text \<open>
  C5. When the timeout string resolves to the empty string or to \<^verbatim>\<open>NONE\<close> in any
  mix of upper and lower case, the constructor returns the object, with no error
  recorded, \<open>secs\<close> still -1 and the object not active, and \<^verbatim>\<open>start()\<close> leaves it as
  it is.
\<close>

theorem none_or_empty_leaves_inactive:
  assumes "replace_string v (case t of None \<Rightarrow> [] | Some x \<Rightarrow> x) = Inr s"
    and "s = [] \<or> list_all2 (\<lambda>c cs. c \<in> set cs) s [''nN'', ''oO'', ''nN'', ''eE'']"
  shows "\<exists>tm. init u c t msg (Some v) = Inr tm \<and> (truth_value v \<longrightarrow> string tm = s)
           \<and> error tm = None
           \<and> secs tm = - 1 \<and> starttime tm = - 1 \<and> \<not> active tm
           \<and> start clk tm k = (tm, k) \<and> \<not> active (fst (start clk tm k))"
proof -
  have "s = [] \<or> upper s = ''NONE''"
    using assms(2) upper_none_variants by blast
  then show ?thesis
  proof (cases "truth_value v")
    case True
    assume "s = [] \<or> upper s = ''NONE''"
    then show ?thesis
      using assms(1) True
      by (auto simp add: init_def replace_variables_def replace_variables_try_def active_def start_def)
  next
    case False
    then show ?thesis
      by (simp add: init_def active_def start_def)
  qed
qed

theorem none_or_empty_leaves_inactive_witness:
  "\<exists>tm. init simple_utils TestTimeout (Some ''nOnE'') ''too slow'' (Some plain_variables) = Inr tm
       \<and> string tm = ''nOnE'' \<and> error tm = None \<and> secs tm = - 1 \<and> starttime tm = - 1
       \<and> \<not> active tm \<and> start ticking_clock tm 0 = (tm, 0)
       \<and> \<not> active (fst (start ticking_clock tm 0))"
  using none_or_empty_leaves_inactive
          [of plain_variables "Some ''nOnE''" "''nOnE''" simple_utils TestTimeout "''too slow''" ticking_clock 0]
  by (simp add: plain_variables_def)

subsection \<open>A started timeout\<close>

lemma start_positive: "0 < secs tm \<Longrightarrow> start clk tm k = (tm\<lparr>starttime := clk k\<rparr>, Suc k)"
  by (simp add: start_def time_time_def)

text \<open>
  C6, as the code has it. A timeout of \<open>d > 0\<close> seconds, started at a positive clock
  reading and asked when \<open>e\<close> seconds have passed, \<open>0 \<le> e < d\<close>, is active, and
  \<^verbatim>\<open>time_left()\<close> is \<open>round(d - e, 3)\<close>: at least 0, at most \<open>round(d, 3)\<close>, which is
  at most \<open>d + 0.0005\<close>. \<^verbatim>\<open>timed_out()\<close> is false exactly when at least half a
  millisecond is left, \<open>d - e \<ge> 0.0005\<close>. A timeout that is not active has
  \<^verbatim>\<open>time_left()\<close> -1.
\<close>

theorem started_timeout_before_deadline:
  assumes "0 < secs tm" and "0 < clk k" and "clk k \<le> clk j" and "clk j - clk k < secs tm"
  shows "active (fst (start clk tm k))
    \<and> fst (time_left clk (fst (start clk tm k)) j) = round3 (secs tm - (clk j - clk k))
    \<and> 0 \<le> fst (time_left clk (fst (start clk tm k)) j)
    \<and> fst (time_left clk (fst (start clk tm k)) j) \<le> round3 (secs tm)
    \<and> fst (time_left clk (fst (start clk tm k)) j) \<le> secs tm + 1 / 2000
    \<and> (fst (timed_out clk (fst (start clk tm k)) j) = False)
        = (1 / 2000 \<le> secs tm - (clk j - clk k))
    \<and> (\<not> active other \<longrightarrow> fst (time_left clk other j) = - 1)"
proof -
  define tm' where "tm' = fst (start clk tm k)"
  have tm': "tm' = tm\<lparr>starttime := clk k\<rparr>"
    using assms(1) by (simp add: tm'_def start_positive)
  have act: "active tm'" using assms(2) by (simp add: tm' active_def)
  have left: "fst (time_left clk tm' j) = round3 (secs tm - (clk j - clk k))"
    using act by (simp add: time_left_active) (simp add: tm')
  have nonneg: "0 \<le> round3 (secs tm - (clk j - clk k))"
    using assms(4) by (intro round3_nonneg) simp
  have le_r: "round3 (secs tm - (clk j - clk k)) \<le> round3 (secs tm)"
    using assms(3) by (intro round3_mono) simp
  have "round3 (secs tm) \<le> secs tm + 1 / 2000"
    using round3_near [of "secs tm"] by linarith
  then have le_d: "round3 (secs tm - (clk j - clk k)) \<le> secs tm + 1 / 2000"
    using le_r by linarith
  have "fst (timed_out clk tm' j) = (round3 (secs tm - (clk j - clk k)) \<le> 0)"
    using act by (simp add: timed_out_active) (simp add: tm')
  then have out: "(fst (timed_out clk tm' j) = False) = (1 / 2000 \<le> secs tm - (clk j - clk k))"
    using round3_pos_iff [of "secs tm - (clk j - clk k)"] by auto
  have "\<not> active other \<longrightarrow> fst (time_left clk other j) = - 1"
    by (simp add: time_left_inactive)
  then show ?thesis
    using act left nonneg le_r le_d out unfolding tm'_def by simp
qed

theorem started_timeout_before_deadline_witness:
  "active (fst (start ticking_clock (one_second\<lparr>secs := 10\<rparr>) 0))
   \<and> fst (time_left ticking_clock (fst (start ticking_clock (one_second\<lparr>secs := 10\<rparr>) 0)) 2) = 8
   \<and> fst (timed_out ticking_clock (fst (start ticking_clock (one_second\<lparr>secs := 10\<rparr>) 0)) 2) = False
   \<and> fst (time_left ticking_clock one_second 2) = - 1"
  using started_timeout_before_deadline [of "one_second\<lparr>secs := 10\<rparr>" ticking_clock 0 2 one_second]
  by (simp add: one_second_def ticking_clock_def active_def round3_def)

text \<open>
  C6 as stated fails. A timeout of 1 s started at 100 s and asked at 100.9996 s, before
  its second has passed, has \<^verbatim>\<open>time_left()\<close> 0 and reports \<^verbatim>\<open>timed_out()\<close>; a
  timeout of 0.0006 s asked at once has \<^verbatim>\<open>time_left()\<close> 0.001, more than its
  duration.
\<close>

theorem timed_out_before_deadline_counterexample:
  "0 < secs one_second
   \<and> 0 \<le> late_clock 1 - late_clock 0
   \<and> late_clock 1 - late_clock 0 < secs one_second
   \<and> active (fst (start late_clock one_second 0))
   \<and> fst (timed_out late_clock (fst (start late_clock one_second 0)) 1) = True
   \<and> fst (time_left frozen_clock (fst (start frozen_clock (one_second\<lparr>secs := 6 / 10000\<rparr>) 0)) 1)
       = 1 / 1000
   \<and> secs (one_second\<lparr>secs := 6 / 10000\<rparr>) < 1 / 1000"
  by (simp add: one_second_def late_clock_def frozen_clock_def start_def time_time_def active_def
        timed_out_def time_left_def round3_def)

subsection \<open>What a sequence of calls keeps\<close>

lemma replace_variables_try_keeps:
  "starttime (fst (replace_variables_try u v tm)) = starttime tm"
  "keyword_timeouted (fst (replace_variables_try u v tm)) = keyword_timeouted tm"
  "cls (fst (replace_variables_try u v tm)) = cls tm"
  by (simp_all add: replace_variables_try_def Let_def split: sum.splits)

lemma replace_variables_except_keeps:
  "starttime (fst (replace_variables_except tm err)) = starttime tm"
  "keyword_timeouted (fst (replace_variables_except tm err)) = keyword_timeouted tm"
  "cls (fst (replace_variables_except tm err)) = cls tm"
  by (simp_all add: replace_variables_except_def)

lemma replace_variables_keeps:
  "starttime (fst (replace_variables u v tm)) = starttime tm"
  "keyword_timeouted (fst (replace_variables u v tm)) = keyword_timeouted tm"
  "cls (fst (replace_variables u v tm)) = cls tm"
proof -
  obtain tm' r where t: "replace_variables_try u v tm = (tm', r)" by (cases "replace_variables_try u v tm")
  have k: "starttime tm' = starttime tm" "keyword_timeouted tm' = keyword_timeouted tm" "cls tm' = cls tm"
    using replace_variables_try_keeps [of u v tm] t by simp_all
  show "starttime (fst (replace_variables u v tm)) = starttime tm"
    using t k by (cases r) (simp_all add: replace_variables_def replace_variables_except_keeps)
  show "keyword_timeouted (fst (replace_variables u v tm)) = keyword_timeouted tm"
    using t k by (cases r) (simp_all add: replace_variables_def replace_variables_except_keeps)
  show "cls (fst (replace_variables u v tm)) = cls tm"
    using t k by (cases r) (simp_all add: replace_variables_def replace_variables_except_keeps)
qed

lemma perform_keeps_starttime:
  "c \<noteq> Start \<Longrightarrow> starttime (fst (perform fmt clk c st)) = starttime (fst st)"
  by (cases st, cases c) (simp_all add: replace_variables_keeps set_keyword_timeout_def)

lemma perform_all_keeps_starttime:
  "Start \<notin> set cs \<Longrightarrow> starttime (fst (perform_all fmt clk cs st)) = starttime (fst st)"
proof (induction cs arbitrary: st)
  case Nil
  then show ?case by simp
next
  case (Cons c cs)
  then have "c \<noteq> Start" and "Start \<notin> set cs" by auto
  then show ?case using Cons.IH [of "perform fmt clk c st"] perform_keeps_starttime [of c fmt clk st]
    by simp
qed

text \<open>
  C7, as the code has it. Every \<^verbatim>\<open>start()\<close> on a timeout with \<open>secs > 0\<close> assigns
  the current clock reading to \<open>starttime\<close>, and \<^verbatim>\<open>start()\<close> leaves the object as it
  is otherwise; no call other than \<^verbatim>\<open>start()\<close> assigns \<open>starttime\<close>.
\<close>

theorem starttime_assigned_by_every_start_only:
  "(0 < secs tm \<longrightarrow> starttime (fst (start clk tm k)) = clk k)
   \<and> (\<not> 0 < secs tm \<longrightarrow> start clk tm k = (tm, k))
   \<and> (Start \<notin> set cs \<longrightarrow> starttime (fst (perform_all fmt clk cs (tm, k))) = starttime tm)"
  using perform_all_keeps_starttime [of cs fmt clk "(tm, k)"]
  by (simp add: start_positive start_not_positive)

theorem starttime_assigned_by_every_start_only_witness:
  "starttime (fst (start ticking_clock one_second 3)) = 103
   \<and> start ticking_clock (unresolved ''${T}'') 3 = (unresolved ''${T}'', 3)
   \<and> starttime (fst (perform_all no_format ticking_clock
         [TimeLeft, ReplaceVariables simple_utils plain_variables, GetMessage, SetKeywordTimeout True,
          Run call_directly 7 () (), TimedOut, AnyTimeoutOccurred, Cmp one_second]
         (one_second\<lparr>starttime := 100\<rparr>, 0))) = 100"
  using starttime_assigned_by_every_start_only [of one_second ticking_clock 3 "[]" no_format]
        starttime_assigned_by_every_start_only [of "unresolved ''${T}''" ticking_clock 3 "[]" no_format]
        starttime_assigned_by_every_start_only
          [of "one_second\<lparr>starttime := 100\<rparr>" ticking_clock 0
              "[TimeLeft, ReplaceVariables simple_utils plain_variables, GetMessage, SetKeywordTimeout True,
                Run call_directly 7 () (), TimedOut, AnyTimeoutOccurred, Cmp one_second]"
              no_format]
  by (simp add: one_second_def unresolved_def ticking_clock_def)

text \<open>
  C7 as stated fails: a second \<^verbatim>\<open>start()\<close> replaces the \<open>starttime\<close> of the first.
\<close>

theorem second_start_restamps_counterexample:
  "starttime (fst (start ticking_clock one_second 0)) = 100
   \<and> starttime (fst (start ticking_clock (fst (start ticking_clock one_second 0)) 1)) = 101"
  by (simp add: start_def time_time_def one_second_def ticking_clock_def)

subsection \<open>A resolution that fails\<close>


lemma replace_variables_error_recorded:
  assumes "error tm = None" and "error (fst (replace_variables u v tm)) \<noteq> None"
  shows "secs (fst (replace_variables u v tm)) = 1 / 1000000"
proof -
  obtain tm' r where t: "replace_variables_try u v tm = (tm', r)"
    by (cases "replace_variables_try u v tm")
  have e: "error tm' = None"
    using assms(1) t by (auto simp add: replace_variables_try_def Let_def split: sum.splits if_splits)
  show ?thesis
  proof (cases r)
    case None
    then show ?thesis using t e assms(2) by (simp add: replace_variables_def)
  next
    case (Some err)
    then show ?thesis using t e assms(2)
      by (cases "is_DataError_or_ValueError err") (simp_all add: replace_variables_def replace_variables_except_def)
  qed
qed





text \<open>
  C8, as the code has it. \<open>secs\<close> is -1 in the object that the constructor builds
  without variables, before any resolution; a \<^verbatim>\<open>replace_variables\<close> that records an
  error leaves \<open>secs\<close> at 0.000001, which is positive.
\<close>

theorem secs_before_resolution_and_on_error:
  "(\<exists>new. init u c t msg None = Inr new \<and> secs new = - 1 \<and> secs new \<le> 0 \<and> error new = None)
   \<and> (error tm = None \<and> error (fst (replace_variables u v tm)) \<noteq> None \<longrightarrow>
        secs (fst (replace_variables u v tm)) = 1 / 1000000
        \<and> 0 < secs (fst (replace_variables u v tm)))"
proof -
  have "\<exists>new. init u c t msg None = Inr new \<and> secs new = - 1 \<and> secs new \<le> 0 \<and> error new = None"
    by (simp add: init_def)
  moreover have "error tm = None \<and> error (fst (replace_variables u v tm)) \<noteq> None \<longrightarrow>
        secs (fst (replace_variables u v tm)) = 1 / 1000000
        \<and> 0 < secs (fst (replace_variables u v tm))"
  proof
    assume "error tm = None \<and> error (fst (replace_variables u v tm)) \<noteq> None"
    then have "secs (fst (replace_variables u v tm)) = 1 / 1000000"
      using replace_variables_error_recorded [of tm u v] by blast
    then show "secs (fst (replace_variables u v tm)) = 1 / 1000000
        \<and> 0 < secs (fst (replace_variables u v tm))" by simp
  qed
  ultimately show ?thesis by blast
qed

theorem secs_before_resolution_and_on_error_witness:
  "(\<exists>new. init simple_utils KeywordTimeout (Some ''xyz'') [] None = Inr new \<and> secs new = - 1
        \<and> secs new \<le> 0 \<and> error new = None)
   \<and> error (unresolved ''xyz'') = None
   \<and> error (fst (replace_variables simple_utils plain_variables (unresolved ''xyz''))) \<noteq> None
   \<and> secs (fst (replace_variables simple_utils plain_variables (unresolved ''xyz''))) = 1 / 1000000"
proof -
  have e: "error (fst (replace_variables simple_utils plain_variables (unresolved ''xyz''))) \<noteq> None"
    by (simp add: replace_variables_def replace_variables_try_def replace_variables_except_def
          simple_utils_def plain_variables_def unresolved_def
          upper_def upper_char_def ascii_lowercase_def ascii_uppercase_def)
  have n: "error (unresolved ''xyz'') = None" by (simp add: unresolved_def)
  show ?thesis
    using secs_before_resolution_and_on_error
            [of simple_utils KeywordTimeout "Some ''xyz''" "[]" "unresolved ''xyz''" plain_variables]
          e n
    by simp
qed

text \<open>
  C8 as stated fails: after a resolution error \<open>secs\<close> is not \<open>\<le> 0\<close>.
\<close>

theorem secs_positive_on_error_counterexample:
  "error (fst (replace_variables simple_utils plain_variables (unresolved ''xyz''))) \<noteq> None
   \<and> \<not> secs (fst (replace_variables simple_utils plain_variables (unresolved ''xyz''))) \<le> 0"
  by (simp add: replace_variables_def replace_variables_try_def replace_variables_except_def
        simple_utils_def plain_variables_def unresolved_def
        upper_def upper_char_def ascii_lowercase_def ascii_uppercase_def)

subsection \<open>The flag of a test timeout\<close>

lemma start_keeps_flag: "keyword_timeouted (fst (start clk tm k)) = keyword_timeouted tm"
  by (simp add: start_def time_time_def)

lemma perform_keeps_flag:
  "keyword_timeouted (fst st) \<Longrightarrow> keyword_timeouted (fst (perform fmt clk c st))"
  by (cases st, cases c)
     (simp_all add: replace_variables_keeps start_keeps_flag set_keyword_timeout_def)

lemma perform_all_keeps_flag:
  "keyword_timeouted (fst st) \<Longrightarrow> keyword_timeouted (fst (perform_all fmt clk cs st))"
proof (induction cs arbitrary: st)
  case Nil
  then show ?case by simp
next
  case (Cons c cs)
  then show ?case using perform_keeps_flag [of st fmt clk c] by simp
qed

text \<open>
  C9. After \<^verbatim>\<open>set_keyword_timeout(True)\<close> the flag \<^verbatim>\<open>_keyword_timeouted\<close> is set, a
  later \<^verbatim>\<open>set_keyword_timeout(False)\<close> does not clear it, and it stays set through
  every sequence of calls on the object; \<^verbatim>\<open>any_timeout_occurred()\<close> is
  \<^verbatim>\<open>timed_out()\<close> or the flag.
\<close>

theorem keyword_timeout_flag_is_sticky:
  "keyword_timeouted (set_keyword_timeout tm True)
   \<and> keyword_timeouted (set_keyword_timeout (set_keyword_timeout tm True) False)
   \<and> keyword_timeouted (fst (perform_all fmt clk cs (set_keyword_timeout tm True, k)))
   \<and> (keyword_timeouted tm \<longrightarrow> keyword_timeouted (fst (perform_all fmt clk cs (tm, k))))
   \<and> fst (any_timeout_occurred clk tm k) = (fst (timed_out clk tm k) \<or> keyword_timeouted tm)"
proof -
  have s: "keyword_timeouted (set_keyword_timeout tm True)"
    by (simp add: set_keyword_timeout_def)
  then have "keyword_timeouted (fst (perform_all fmt clk cs (set_keyword_timeout tm True, k)))"
    by (intro perform_all_keeps_flag) simp
  moreover have "keyword_timeouted tm \<longrightarrow> keyword_timeouted (fst (perform_all fmt clk cs (tm, k)))"
    using perform_all_keeps_flag [of "(tm, k)" fmt clk cs] by simp
  moreover have "fst (any_timeout_occurred clk tm k) = (fst (timed_out clk tm k) \<or> keyword_timeouted tm)"
    by (simp add: any_timeout_occurred_def split: prod.splits)
  moreover have "keyword_timeouted (set_keyword_timeout (set_keyword_timeout tm True) False)"
    by (simp add: set_keyword_timeout_def)
  ultimately show ?thesis using s by blast
qed

theorem keyword_timeout_flag_is_sticky_witness:
  "keyword_timeouted (set_keyword_timeout one_second True)
   \<and> keyword_timeouted (fst (perform_all no_format ticking_clock
        [SetKeywordTimeout False, Start, ReplaceVariables simple_utils plain_variables,
         Run call_directly 7 () (), SetKeywordTimeout False]
        (set_keyword_timeout one_second True, 0)))
   \<and> fst (any_timeout_occurred ticking_clock (set_keyword_timeout one_second True) 0) = True
   \<and> fst (any_timeout_occurred ticking_clock one_second 0) = False
   \<and> fst (any_timeout_occurred ticking_clock (one_second\<lparr>starttime := 100\<rparr>) 5) = True"
  using keyword_timeout_flag_is_sticky
          [of one_second no_format ticking_clock
              "[SetKeywordTimeout False, Start, ReplaceVariables simple_utils plain_variables,
                Run call_directly 7 () (), SetKeywordTimeout False]" 0]
        keyword_timeout_flag_is_sticky
          [of "set_keyword_timeout one_second True" no_format ticking_clock "[]" 0]
        keyword_timeout_flag_is_sticky
          [of "one_second\<lparr>starttime := 100\<rparr>" no_format ticking_clock "[]" 5]
  by (simp add: one_second_def set_keyword_timeout_def timed_out_def time_left_def time_time_def
        active_def ticking_clock_def round3_def)

subsection \<open>Comparing timeouts that are not active\<close>

text \<open>
  C10. Two timeouts that are not active compare as equal, whatever their \<open>secs\<close> and
  strings: \<^verbatim>\<open>__cmp__\<close> is 0, both \<^verbatim>\<open>time_left()\<close> being -1.
\<close>

theorem cmp_inactive_equal:
  "\<not> active a \<Longrightarrow> \<not> active b \<Longrightarrow>
     timeout_cmp clk a b k = (0, k) \<and> time_left clk a k = (- 1, k) \<and> time_left clk b k = (- 1, k)"
  by (simp add: timeout_cmp_def cmp_def time_left_inactive)

theorem cmp_inactive_equal_witness:
  "\<not> active (one_second\<lparr>secs := 3600\<rparr>) \<and> \<not> active (unresolved ''${T}'')
   \<and> timeout_cmp ticking_clock (one_second\<lparr>secs := 3600\<rparr>) (unresolved ''${T}'') 0 = (0, 0)
   \<and> timeout_cmp ticking_clock (unresolved ''${T}'') (one_second\<lparr>secs := 3600\<rparr>) 0 = (0, 0)
   \<and> time_left ticking_clock (one_second\<lparr>secs := 3600\<rparr>) 0 = (- 1, 0)
   \<and> time_left ticking_clock (unresolved ''${T}'') 0 = (- 1, 0)"
  using cmp_inactive_equal [of "one_second\<lparr>secs := 3600\<rparr>" "unresolved ''${T}''" ticking_clock 0]
        cmp_inactive_equal [of "unresolved ''${T}''" "one_second\<lparr>secs := 3600\<rparr>" ticking_clock 0]
  by (simp add: active_def one_second_def unresolved_def)

end
